theory Spec2Isabelle
  imports Main "HOL-Library.Word"
begin

section \<open>The lockdown ratchet of security/lockdown/lockdown.c\<close>

subsection \<open>Data model\<close>

text \<open>
  Modelled from the spec: \<^verbatim>\<open>enum lockdown_reason\<close> is declared in
  \<^verbatim>\<open>include/linux/security.h\<close>, which is not among the sources. Its enumerators are
  taken in the order in which \<^verbatim>\<open>lockdown_reasons[LOCKDOWN_CONFIDENTIALITY_MAX+1]\<close>
  designates them, starting at 0, so that \<open>None < IntegrityMax < ConfidentialityMax\<close> as
  the specification's data model has it. A value of the enumeration is an unsigned
  32-bit integer, and every comparison of the source is the unsigned one.
\<close>

type_synonym lockdown_reason = "32 word"

named_theorems lockdown_enum \<open>values of the enumerators of lockdown_reason\<close>

definition LOCKDOWN_NONE :: lockdown_reason where
  [lockdown_enum]: "LOCKDOWN_NONE = 0"

definition LOCKDOWN_MODULE_SIGNATURE :: lockdown_reason where
  [lockdown_enum]: "LOCKDOWN_MODULE_SIGNATURE = 1"

definition LOCKDOWN_DEV_MEM :: lockdown_reason where
  [lockdown_enum]: "LOCKDOWN_DEV_MEM = 2"

definition LOCKDOWN_EFI_TEST :: lockdown_reason where
  [lockdown_enum]: "LOCKDOWN_EFI_TEST = 3"

definition LOCKDOWN_KEXEC :: lockdown_reason where
  [lockdown_enum]: "LOCKDOWN_KEXEC = 4"

definition LOCKDOWN_HIBERNATION :: lockdown_reason where
  [lockdown_enum]: "LOCKDOWN_HIBERNATION = 5"

definition LOCKDOWN_PCI_ACCESS :: lockdown_reason where
  [lockdown_enum]: "LOCKDOWN_PCI_ACCESS = 6"

definition LOCKDOWN_IOPORT :: lockdown_reason where
  [lockdown_enum]: "LOCKDOWN_IOPORT = 7"

definition LOCKDOWN_MSR :: lockdown_reason where
  [lockdown_enum]: "LOCKDOWN_MSR = 8"

definition LOCKDOWN_ACPI_TABLES :: lockdown_reason where
  [lockdown_enum]: "LOCKDOWN_ACPI_TABLES = 9"

definition LOCKDOWN_PCMCIA_CIS :: lockdown_reason where
  [lockdown_enum]: "LOCKDOWN_PCMCIA_CIS = 10"

definition LOCKDOWN_TIOCSSERIAL :: lockdown_reason where
  [lockdown_enum]: "LOCKDOWN_TIOCSSERIAL = 11"

definition LOCKDOWN_MODULE_PARAMETERS :: lockdown_reason where
  [lockdown_enum]: "LOCKDOWN_MODULE_PARAMETERS = 12"

definition LOCKDOWN_MMIOTRACE :: lockdown_reason where
  [lockdown_enum]: "LOCKDOWN_MMIOTRACE = 13"

definition LOCKDOWN_DEBUGFS :: lockdown_reason where
  [lockdown_enum]: "LOCKDOWN_DEBUGFS = 14"

definition LOCKDOWN_INTEGRITY_MAX :: lockdown_reason where
  [lockdown_enum]: "LOCKDOWN_INTEGRITY_MAX = 15"

definition LOCKDOWN_KCORE :: lockdown_reason where
  [lockdown_enum]: "LOCKDOWN_KCORE = 16"

definition LOCKDOWN_KPROBES :: lockdown_reason where
  [lockdown_enum]: "LOCKDOWN_KPROBES = 17"

definition LOCKDOWN_BPF_READ :: lockdown_reason where
  [lockdown_enum]: "LOCKDOWN_BPF_READ = 18"

definition LOCKDOWN_PERF :: lockdown_reason where
  [lockdown_enum]: "LOCKDOWN_PERF = 19"

definition LOCKDOWN_TRACEFS :: lockdown_reason where
  [lockdown_enum]: "LOCKDOWN_TRACEFS = 20"

definition LOCKDOWN_CONFIDENTIALITY_MAX :: lockdown_reason where
  [lockdown_enum]: "LOCKDOWN_CONFIDENTIALITY_MAX = 21"

text \<open>The error numbers of \<^verbatim>\<open>errno-base.h\<close>; a function returns them negated.\<close>

definition EPERM :: int where
  "EPERM = 1"

definition EINVAL :: int where
  "EINVAL = 22"

text \<open>
  The kernel log. \<^verbatim>\<open>pr_notice\<close> appends a notice, \<^verbatim>\<open>WARN\<close> with a true condition
  appends a warning (and a stack trace, which is not modelled).
\<close>

datatype kmsg = Notice string | Warning string

text \<open>
  The state the file works on: its one static variable \<^verbatim>\<open>kernel_locked_down\<close>,
  zero-initialised, and the log its notices go to.
\<close>

record lockdown_state =
  kernel_locked_down :: lockdown_reason
  klog :: "kmsg list"

definition boot_state :: lockdown_state where
  "boot_state = \<lparr>kernel_locked_down = LOCKDOWN_NONE, klog = []\<rparr>"

definition newline :: char where
  "newline = CHR 0x0A"

definition nul :: char where
  "nul = CHR 0x00"

text \<open>
  \<^verbatim>\<open>lockdown_reasons\<close>: an array of string pointers filled by designated
  initialisers. An index with no initialiser holds NULL, here \<open>None\<close>.
\<close>

definition lockdown_reasons :: "lockdown_reason \<Rightarrow> string option" where
  "lockdown_reasons = map_of
    [(LOCKDOWN_NONE, ''none''),
     (LOCKDOWN_MODULE_SIGNATURE, ''unsigned module loading''),
     (LOCKDOWN_DEV_MEM, ''/dev/mem,kmem,port''),
     (LOCKDOWN_EFI_TEST, ''/dev/efi_test access''),
     (LOCKDOWN_KEXEC, ''kexec of unsigned images''),
     (LOCKDOWN_HIBERNATION, ''hibernation''),
     (LOCKDOWN_PCI_ACCESS, ''direct PCI access''),
     (LOCKDOWN_IOPORT, ''raw io port access''),
     (LOCKDOWN_MSR, ''raw MSR access''),
     (LOCKDOWN_ACPI_TABLES, ''modifying ACPI tables''),
     (LOCKDOWN_PCMCIA_CIS, ''direct PCMCIA CIS storage''),
     (LOCKDOWN_TIOCSSERIAL, ''reconfiguration of serial port IO''),
     (LOCKDOWN_MODULE_PARAMETERS, ''unsafe module parameters''),
     (LOCKDOWN_MMIOTRACE, ''unsafe mmio''),
     (LOCKDOWN_DEBUGFS, ''debugfs access''),
     (LOCKDOWN_INTEGRITY_MAX, ''integrity''),
     (LOCKDOWN_KCORE, ''/proc/kcore access''),
     (LOCKDOWN_KPROBES, ''use of kprobes''),
     (LOCKDOWN_BPF_READ, ''use of bpf to read kernel RAM''),
     (LOCKDOWN_PERF, ''unsafe use of perf''),
     (LOCKDOWN_TRACEFS, ''use of tracefs''),
     (LOCKDOWN_CONFIDENTIALITY_MAX, ''confidentiality'')]"

definition lockdown_levels :: "lockdown_reason list" where
  "lockdown_levels = [LOCKDOWN_NONE, LOCKDOWN_INTEGRITY_MAX, LOCKDOWN_CONFIDENTIALITY_MAX]"

subsection \<open>Raising the level\<close>

text \<open>
  The variable is declared \<^verbatim>\<open>__read_mostly\<close> under
  \<^verbatim>\<open>CONFIG_ALLOW_LOCKDOWN_LIFT_BY_SYSRQ\<close> and \<^verbatim>\<open>__ro_after_init\<close> without it. In the
  second build its section is made read-only when init is over, and a store to it from
  then on is a fault in kernel mode: the call does not return.
\<close>

datatype fault = Write_Fault

text \<open>
  \<^verbatim>\<open>lock_kernel_down(where, level)\<close>. \<open>ro\<close> says that \<^verbatim>\<open>kernel_locked_down\<close> is
  read-only at the time of the call: the build is without
  \<^verbatim>\<open>CONFIG_ALLOW_LOCKDOWN_LIFT_BY_SYSRQ\<close> and init is over. The comparison only reads;
  the store comes before the notice. \<open>Inr\<close> holds the returned \<^verbatim>\<open>int\<close> and the state
  left behind.
\<close>

definition lock_kernel_down ::
  "bool \<Rightarrow> string \<Rightarrow> lockdown_reason \<Rightarrow> lockdown_state \<Rightarrow> fault + int \<times> lockdown_state" where
  "lock_kernel_down ro whence level s =
     (if kernel_locked_down s \<ge> level then Inr (- EPERM, s)
      else if ro then Inl Write_Fault
      else Inr (0, s\<lparr>kernel_locked_down := level,
                     klog := klog s @
                       [Notice (''Kernel is locked down from '' @ whence @
                                ''; see https://wiki.debian.org/SecureBoot'' @ [newline])]\<rparr>))"

text \<open>
  \<^verbatim>\<open>lock_kernel_down\<close> as an \<^verbatim>\<open>__init\<close> function calls it: init is not over, so the
  variable is writable in either build and the call returns.
\<close>

definition lock_kernel_down_init ::
  "string \<Rightarrow> lockdown_reason \<Rightarrow> lockdown_state \<Rightarrow> int \<times> lockdown_state" where
  "lock_kernel_down_init whence level s =
     (if kernel_locked_down s \<ge> level then (- EPERM, s)
      else (0, s\<lparr>kernel_locked_down := level,
                 klog := klog s @
                   [Notice (''Kernel is locked down from '' @ whence @
                            ''; see https://wiki.debian.org/SecureBoot'' @ [newline])]\<rparr>))"

text \<open>
  A sequence of raise requests made while the variable is writable; the result lists
  the level observed after each request.
\<close>

fun observed_levels :: "(string \<times> lockdown_reason) list \<Rightarrow> lockdown_state \<Rightarrow> lockdown_reason list" where
  "observed_levels [] s = []"
| "observed_levels ((whence, level) # rs) s =
     (let s' = snd (lock_kernel_down_init whence level s)
      in kernel_locked_down s' # observed_levels rs s')"

subsection \<open>The command-line parameter\<close>

text \<open>
  \<^verbatim>\<open>strcmp\<close> of the C library compares two NUL-terminated strings byte by byte, as
  unsigned bytes. The strings are given without their terminator and only the sign of
  the result is kept, which is all the C standard fixes and all the callers read.
\<close>

fun strcmp :: "string \<Rightarrow> string \<Rightarrow> int" where
  "strcmp [] [] = 0"
| "strcmp [] (y # ys) = - 1"
| "strcmp (x # xs) [] = 1"
| "strcmp (x # xs) (y # ys) =
     (if x = y then strcmp xs ys
      else if (of_char x :: nat) < of_char y then - 1 else 1)"

text \<open>
  \<^verbatim>\<open>lockdown_param(level)\<close>, the handler of \<^verbatim>\<open>lockdown=\<close> on the command line, an
  \<^verbatim>\<open>__init\<close> function: its calls of \<^verbatim>\<open>lock_kernel_down\<close> are made during init. A NULL
  argument is \<open>None\<close>. The value \<^verbatim>\<open>lock_kernel_down\<close> returns is dropped by the source.
\<close>

definition lockdown_param :: "string option \<Rightarrow> lockdown_state \<Rightarrow> int \<times> lockdown_state" where
  "lockdown_param level s =
     (case level of
        None \<Rightarrow> (- EINVAL, s)
      | Some l \<Rightarrow>
          if strcmp l ''integrity'' = 0
          then (0, snd (lock_kernel_down_init ''command line'' LOCKDOWN_INTEGRITY_MAX s))
          else if strcmp l ''confidentiality'' = 0
          then (0, snd (lock_kernel_down_init ''command line'' LOCKDOWN_CONFIDENTIALITY_MAX s))
          else (- EINVAL, s))"

subsection \<open>The authorization check\<close>

text \<open>
  \<^verbatim>\<open>lockdown_is_locked_down(what)\<close>; \<open>comm\<close> is \<^verbatim>\<open>current->comm\<close>, the name of the
  calling task. The table is read only below \<^verbatim>\<open>LOCKDOWN_CONFIDENTIALITY_MAX\<close>, so inside
  the array.
\<close>

definition lockdown_is_locked_down ::
  "string \<Rightarrow> lockdown_reason \<Rightarrow> lockdown_state \<Rightarrow> int \<times> lockdown_state" where
  "lockdown_is_locked_down comm what s =
     (if what \<ge> LOCKDOWN_CONFIDENTIALITY_MAX
      then (- EPERM, s\<lparr>klog := klog s @ [Warning ''Invalid lockdown reason'']\<rparr>)
      else if kernel_locked_down s \<ge> what
      then (- EPERM,
            case lockdown_reasons what of
              None \<Rightarrow> s
            | Some label \<Rightarrow>
                s\<lparr>klog := klog s @
                   [Notice (''Lockdown: '' @ comm @ '': '' @ label @
                            '' is restricted; see https://wiki.debian.org/SecureBoot'' @
                            [newline])]\<rparr>)
      else (0, s))"

subsection \<open>Initialisation\<close>

text \<open>
  The build configuration: at most one of \<^verbatim>\<open>CONFIG_LOCK_DOWN_KERNEL_FORCE_INTEGRITY\<close> and
  \<^verbatim>\<open>CONFIG_LOCK_DOWN_KERNEL_FORCE_CONFIDENTIALITY\<close> takes effect, the first one tested
  first.
\<close>

datatype lockdown_config = ForceNone | ForceIntegrity | ForceConfidentiality

text \<open>
  \<^verbatim>\<open>lockdown_lsm_init\<close>, an \<^verbatim>\<open>__init\<close> function; registering the hook does not touch
  the level.
\<close>

fun lockdown_lsm_init :: "lockdown_config \<Rightarrow> lockdown_state \<Rightarrow> int \<times> lockdown_state" where
  "lockdown_lsm_init ForceIntegrity s =
     (0, snd (lock_kernel_down_init ''Kernel configuration'' LOCKDOWN_INTEGRITY_MAX s))"
| "lockdown_lsm_init ForceConfidentiality s =
     (0, snd (lock_kernel_down_init ''Kernel configuration'' LOCKDOWN_CONFIDENTIALITY_MAX s))"
| "lockdown_lsm_init ForceNone s = (0, s)"

subsection \<open>The securityfs file: read\<close>

text \<open>
  The loop of \<^verbatim>\<open>lockdown_read\<close> over \<^verbatim>\<open>lockdown_levels\<close>. \<open>temp\<close> holds the characters
  written so far, so its length is the source's \<^verbatim>\<open>offset\<close>, and each \<^verbatim>\<open>sprintf\<close>
  appends.
\<close>

fun read_levels :: "lockdown_reason \<Rightarrow> lockdown_reason list \<Rightarrow> string \<Rightarrow> string" where
  "read_levels cur [] temp = temp"
| "read_levels cur (level # rest) temp =
     (case lockdown_reasons level of
        None \<Rightarrow> read_levels cur rest temp
      | Some label \<Rightarrow>
          if cur = level
          then read_levels cur rest (temp @ ''['' @ label @ ''] '')
          else read_levels cur rest (temp @ label @ '' ''))"

text \<open>The text in \<^verbatim>\<open>temp\<close> when the source hands it over: the last space made a newline.\<close>

definition lockdown_read_temp :: "lockdown_state \<Rightarrow> string" where
  "lockdown_read_temp s =
     (let temp = read_levels (kernel_locked_down s) lockdown_levels [];
          offset = length temp
      in if offset > 0 then temp[offset - 1 := newline] else temp)"

text \<open>
  \<^verbatim>\<open>lockdown_read\<close>. The copy to the caller is \<^verbatim>\<open>simple_read_from_buffer\<close> of
  \<^verbatim>\<open>fs/libfs.c\<close>, which is not among the sources: it is the parameter \<open>xfer\<close>, given
  the count, the file position and the text available.
\<close>

definition lockdown_read :: "(nat \<Rightarrow> int \<Rightarrow> string \<Rightarrow> 'r) \<Rightarrow> nat \<Rightarrow> int \<Rightarrow> lockdown_state \<Rightarrow> 'r" where
  "lockdown_read xfer count ppos s = xfer count ppos (lockdown_read_temp s)"

text \<open>
  How a reader takes the line apart: the fields between single spaces, and whether a
  field is wrapped in brackets.
\<close>

fun fields :: "string \<Rightarrow> string list" where
  "fields [] = [[]]"
| "fields (c # cs) =
     (if c = CHR '' '' then [] # fields cs
      else (case fields cs of [] \<Rightarrow> [[c]] | f # fs \<Rightarrow> (c # f) # fs))"

definition bracketed :: "string \<Rightarrow> bool" where
  "bracketed f \<longleftrightarrow> 2 \<le> length f \<and> hd f = CHR ''['' \<and> last f = CHR '']''"

definition unbracket :: "string \<Rightarrow> string" where
  "unbracket f = (if bracketed f then butlast (tl f) else f)"

text \<open>
  A line for the level \<open>cur\<close>: not empty, ended by its only newline, its fields the
  labels of \<^verbatim>\<open>lockdown_levels\<close> in that order once brackets are taken off, and
  exactly one field in brackets, the label of \<open>cur\<close>.
\<close>

definition level_line :: "lockdown_reason \<Rightarrow> string \<Rightarrow> bool" where
  "level_line cur line \<longleftrightarrow>
     line \<noteq> [] \<and> last line = newline \<and> newline \<notin> set (butlast line) \<and>
     map (Some \<circ> unbracket) (fields (butlast line)) = map lockdown_reasons lockdown_levels \<and>
     map (Some \<circ> unbracket) (filter bracketed (fields (butlast line))) = [lockdown_reasons cur]"

subsection \<open>The securityfs file: write\<close>

text \<open>
  The buffer \<^verbatim>\<open>memdup_user_nul\<close> returns is the bytes written followed by a NUL; as a C
  string it ends at its first NUL.
\<close>

definition c_string :: "string \<Rightarrow> string" where
  "c_string bytes = takeWhile (\<lambda>c. c \<noteq> nul) bytes"

text \<open>
  The loop of \<^verbatim>\<open>lockdown_write\<close>: every level is tried, with no \<^verbatim>\<open>break\<close>. A fault
  in \<^verbatim>\<open>lock_kernel_down\<close> ends it.
\<close>

fun write_levels ::
  "bool \<Rightarrow> string \<Rightarrow> lockdown_reason list \<Rightarrow> int \<Rightarrow> lockdown_state \<Rightarrow>
     fault + int \<times> lockdown_state" where
  "write_levels ro state [] err s = Inr (err, s)"
| "write_levels ro state (level # rest) err s =
     (case lockdown_reasons level of
        None \<Rightarrow> write_levels ro state rest err s
      | Some label \<Rightarrow>
          if strcmp state label = 0
          then (case lock_kernel_down ro ''securityfs'' level s of
                  Inl f \<Rightarrow> Inl f
                | Inr (err', s') \<Rightarrow> write_levels ro state rest err' s')
          else write_levels ro state rest err s)"

text \<open>
  \<^verbatim>\<open>lockdown_write\<close>, the write operation of the securityfs file. A process writes the
  file only once init is over, so \<^verbatim>\<open>kernel_locked_down\<close> is read-only then unless the
  build has the SysRq lift: \<open>lift\<close> is \<^verbatim>\<open>CONFIG_ALLOW_LOCKDOWN_LIFT_BY_SYSRQ\<close>.
  \<^verbatim>\<open>memdup_user_nul\<close> is not among the sources; \<open>dup\<close> is what it returned:
  \<open>Inl e\<close> for an error pointer carrying the negative \<open>e\<close>, \<open>Inr bytes\<close> for the \<open>n\<close>
  bytes copied. The count \<open>n\<close> is returned as a \<^verbatim>\<open>ssize_t\<close>; the caller never passes
  one that does not fit.
\<close>

definition lockdown_write ::
  "bool \<Rightarrow> int + string \<Rightarrow> nat \<Rightarrow> lockdown_state \<Rightarrow> fault + int \<times> lockdown_state" where
  "lockdown_write lift dup n s =
     (case dup of
        Inl e \<Rightarrow> Inr (e, s)
      | Inr bytes \<Rightarrow>
          let state = c_string bytes;
              len = length state;
              state = (if len \<noteq> 0 \<and> state ! (len - 1) = newline
                       then take (len - 1) state else state)
          in case write_levels (\<not> lift) state lockdown_levels (- EINVAL) s of
               Inl f \<Rightarrow> Inl f
             | Inr (err, s') \<Rightarrow> Inr (if err \<noteq> 0 then err else int n, s'))"

text \<open>
  What the specification says of the payload: one optional trailing newline is
  stripped.
\<close>

definition strip_newline :: "string \<Rightarrow> string" where
  "strip_newline t = (if t \<noteq> [] \<and> last t = newline then butlast t else t)"

subsection \<open>Lifting the lockdown by SysRq\<close>

text \<open>Compiled only under \<^verbatim>\<open>CONFIG_ALLOW_LOCKDOWN_LIFT_BY_SYSRQ\<close>.\<close>

definition lift_kernel_lockdown :: "lockdown_state \<Rightarrow> lockdown_state" where
  "lift_kernel_lockdown s =
     s\<lparr>klog := klog s @ [Notice (''Lifting lockdown'' @ [newline])],
       kernel_locked_down := LOCKDOWN_NONE\<rparr>"

definition sysrq_handle_lockdown_lift :: "int \<Rightarrow> lockdown_state \<Rightarrow> lockdown_state" where
  "sysrq_handle_lockdown_lift key s =
     (if kernel_locked_down s \<noteq> LOCKDOWN_NONE then lift_kernel_lockdown s else s)"

subsection \<open>Reachable states\<close>

text \<open>
  The states the kernel can be in: the zero-initialised one, and what the entry points
  of the file make of a reachable state. \<^verbatim>\<open>lock_kernel_down\<close> is exported; its callers
  elsewhere ask for one of the levels of \<^verbatim>\<open>lockdown_levels\<close>, and a call of theirs
  that returns leaves what a call during init leaves. A write that faults leaves the
  state as it was. The flag says whether the SysRq lift is compiled in.
\<close>

inductive reachable :: "bool \<Rightarrow> lockdown_state \<Rightarrow> bool" for lift :: bool where
  by_boot: "reachable lift boot_state"
| by_init: "reachable lift s \<Longrightarrow> reachable lift (snd (lockdown_lsm_init cfg s))"
| by_param: "reachable lift s \<Longrightarrow> reachable lift (snd (lockdown_param level s))"
| by_raise: "reachable lift s \<Longrightarrow> level \<in> set lockdown_levels \<Longrightarrow>
          reachable lift (snd (lock_kernel_down_init whence level s))"
| by_check: "reachable lift s \<Longrightarrow> reachable lift (snd (lockdown_is_locked_down comm what s))"
| by_write: "reachable lift s \<Longrightarrow> lockdown_write lift dup n s = Inr (ret, s') \<Longrightarrow>
          reachable lift s'"
| by_sysrq: "reachable lift s \<Longrightarrow> lift \<Longrightarrow> reachable lift (sysrq_handle_lockdown_lift key s)"

section \<open>Properties\<close>

subsection \<open>The transition rule\<close>

lemma lock_kernel_down_level_mono:
  "kernel_locked_down s \<le> kernel_locked_down (snd (lock_kernel_down_init whence level s))"
  by (auto simp add: lock_kernel_down_init_def)

lemma observed_levels_sorted:
  "sorted (kernel_locked_down s # observed_levels rs s)"
proof (induction rs arbitrary: s)
  case Nil
  show ?case by simp
next
  case (Cons r rs)
  obtain whence level where r: "r = (whence, level)"
    by (cases r)
  let ?s' = "snd (lock_kernel_down_init whence level s)"
  have step: "kernel_locked_down s \<le> kernel_locked_down ?s'"
    by (rule lock_kernel_down_level_mono)
  have tl: "sorted (kernel_locked_down ?s' # observed_levels rs ?s')"
    by (rule Cons.IH)
  have "\<forall>x \<in> set (kernel_locked_down ?s' # observed_levels rs ?s'). kernel_locked_down s \<le> x"
    using step tl by (auto intro: order_trans)
  with tl show ?case
    by (simp add: r Let_def)
qed

lemma lock_kernel_down_init_ratchet:
  "(fst (lock_kernel_down_init whence L s) = 0 \<longleftrightarrow> kernel_locked_down s < L) \<and>
   (kernel_locked_down s < L \<longrightarrow>
      kernel_locked_down (snd (lock_kernel_down_init whence L s)) = L) \<and>
   (kernel_locked_down s \<ge> L \<longrightarrow> lock_kernel_down_init whence L s = (- EPERM, s)) \<and>
   sorted (kernel_locked_down s # observed_levels rs s)"
proof -
  have "fst (lock_kernel_down_init whence L s) = 0 \<longleftrightarrow> kernel_locked_down s < L"
    by (auto simp add: lock_kernel_down_init_def EPERM_def)
  moreover have "kernel_locked_down s < L \<longrightarrow>
      kernel_locked_down (snd (lock_kernel_down_init whence L s)) = L"
    by (auto simp add: lock_kernel_down_init_def)
  moreover have "kernel_locked_down s \<ge> L \<longrightarrow> lock_kernel_down_init whence L s = (- EPERM, s)"
    by (simp add: lock_kernel_down_init_def)
  ultimately show ?thesis
    using observed_levels_sorted by blast
qed

text \<open>
  With the variable writable \<^verbatim>\<open>lock_kernel_down\<close> is the function of the init phase;
  a refused request returns \<open>-EPERM\<close> whether it is writable or not; a request above the
  current level, made when the variable is read-only, faults.
\<close>

lemma lock_kernel_down_writable:
  "lock_kernel_down False whence level s = Inr (lock_kernel_down_init whence level s)"
  by (simp add: lock_kernel_down_def lock_kernel_down_init_def)

lemma lock_kernel_down_refused:
  "kernel_locked_down s \<ge> level \<Longrightarrow> lock_kernel_down ro whence level s = Inr (- EPERM, s)"
  by (simp add: lock_kernel_down_def)

lemma lock_kernel_down_read_only:
  "kernel_locked_down s < level \<Longrightarrow> lock_kernel_down True whence level s = Inl Write_Fault"
  by (auto simp add: lock_kernel_down_def)

text \<open>
  C1 does not hold of the build without \<^verbatim>\<open>CONFIG_ALLOW_LOCKDOWN_LIFT_BY_SYSRQ\<close> once
  init is over: at the level \<^verbatim>\<open>LOCKDOWN_NONE\<close> a request for
  \<^verbatim>\<open>LOCKDOWN_INTEGRITY_MAX\<close> is above the current level, yet the call faults at the
  store and returns nothing. The same request with the variable writable returns 0 and
  leaves the level at \<^verbatim>\<open>LOCKDOWN_INTEGRITY_MAX\<close>.
\<close>

theorem lock_kernel_down_faults_after_init:
  "kernel_locked_down boot_state < LOCKDOWN_INTEGRITY_MAX \<and>
   lock_kernel_down True ''securityfs'' LOCKDOWN_INTEGRITY_MAX boot_state = Inl Write_Fault \<and>
   lock_kernel_down False ''securityfs'' LOCKDOWN_INTEGRITY_MAX boot_state =
     Inr (0, \<lparr>kernel_locked_down = LOCKDOWN_INTEGRITY_MAX,
              klog = [Notice (''Kernel is locked down from securityfs'' @
                              ''; see https://wiki.debian.org/SecureBoot'' @ [newline])]\<rparr>)"
  by (simp add: lock_kernel_down_def boot_state_def lockdown_enum)

subsection \<open>Strings and the level table\<close>

lemma strcmp_eq_0_iff: "strcmp a b = 0 \<longleftrightarrow> a = b"
  by (induction a b rule: strcmp.induct) auto

lemma lockdown_reasons_NONE: "lockdown_reasons LOCKDOWN_NONE = Some ''none''"
  by (simp add: lockdown_reasons_def lockdown_enum)

lemma lockdown_reasons_INTEGRITY_MAX: "lockdown_reasons LOCKDOWN_INTEGRITY_MAX = Some ''integrity''"
  by (simp add: lockdown_reasons_def lockdown_enum)

lemma lockdown_reasons_CONFIDENTIALITY_MAX:
  "lockdown_reasons LOCKDOWN_CONFIDENTIALITY_MAX = Some ''confidentiality''"
  by (simp add: lockdown_reasons_def lockdown_enum)

lemmas level_labels =
  lockdown_reasons_NONE lockdown_reasons_INTEGRITY_MAX lockdown_reasons_CONFIDENTIALITY_MAX

lemma write_levels_lockdown_levels:
  "write_levels ro t lockdown_levels e s =
     (if t = ''none'' then lock_kernel_down ro ''securityfs'' LOCKDOWN_NONE s
      else if t = ''integrity'' then lock_kernel_down ro ''securityfs'' LOCKDOWN_INTEGRITY_MAX s
      else if t = ''confidentiality''
      then lock_kernel_down ro ''securityfs'' LOCKDOWN_CONFIDENTIALITY_MAX s
      else Inr (e, s))"
  by (simp add: lockdown_levels_def level_labels strcmp_eq_0_iff split: sum.splits prod.splits)

lemma c_string_text: "nul \<notin> set bytes \<Longrightarrow> c_string bytes = bytes"
  by (auto simp add: c_string_def)

lemma strip_by_index:
  "(if length t \<noteq> 0 \<and> t ! (length t - 1) = newline then take (length t - 1) t else t) =
   strip_newline t"
  by (cases "t = []") (auto simp add: strip_newline_def last_conv_nth butlast_conv_take)

lemma lockdown_write_text:
  "nul \<notin> set buf \<Longrightarrow>
   lockdown_write lift (Inr buf) n s =
     (case write_levels (\<not> lift) (strip_newline buf) lockdown_levels (- EINVAL) s of
        Inl f \<Rightarrow> Inl f
      | Inr (err, s') \<Rightarrow> Inr (if err \<noteq> 0 then err else int n, s'))"
proof -
  assume "nul \<notin> set buf"
  then have "c_string buf = buf"
    by (rule c_string_text)
  then show ?thesis
    unfolding lockdown_write_def Let_def strip_by_index by simp
qed

subsection \<open>The authorization check\<close>

text \<open>
  C2. For every reason \<open>what\<close> strictly below \<^verbatim>\<open>LOCKDOWN_CONFIDENTIALITY_MAX\<close>,
  \<^verbatim>\<open>lockdown_is_locked_down\<close> reports restricted (returns \<open>-EPERM\<close>) if and only if the
  current level is at least \<open>what\<close>, returns 0 otherwise, and leaves
  \<^verbatim>\<open>kernel_locked_down\<close> as it was.
\<close>

theorem lockdown_is_locked_down_below_sentinel:
  assumes "what < LOCKDOWN_CONFIDENTIALITY_MAX"
  shows "(fst (lockdown_is_locked_down comm what s) = - EPERM \<longleftrightarrow> kernel_locked_down s \<ge> what) \<and>
         (fst (lockdown_is_locked_down comm what s) = 0 \<longleftrightarrow> kernel_locked_down s < what) \<and>
         kernel_locked_down (snd (lockdown_is_locked_down comm what s)) = kernel_locked_down s"
  using assms
  by (auto simp add: lockdown_is_locked_down_def EPERM_def split: option.splits)

theorem lockdown_is_locked_down_below_sentinel_witness:
  "LOCKDOWN_KEXEC < LOCKDOWN_CONFIDENTIALITY_MAX \<and>
   fst (lockdown_is_locked_down ''kexec'' LOCKDOWN_KEXEC
         (snd (lock_kernel_down_init ''securityfs'' LOCKDOWN_INTEGRITY_MAX boot_state))) = - EPERM \<and>
   fst (lockdown_is_locked_down ''kexec'' LOCKDOWN_KEXEC boot_state) = 0 \<and>
   kernel_locked_down (snd (lockdown_is_locked_down ''kexec'' LOCKDOWN_KEXEC
         (snd (lock_kernel_down_init ''securityfs'' LOCKDOWN_INTEGRITY_MAX boot_state)))) =
     LOCKDOWN_INTEGRITY_MAX"
proof -
  have h: "LOCKDOWN_KEXEC < LOCKDOWN_CONFIDENTIALITY_MAX"
    by (simp add: lockdown_enum)
  show ?thesis
    using h
      lockdown_is_locked_down_below_sentinel [OF h, of "''kexec''"
        "snd (lock_kernel_down_init ''securityfs'' LOCKDOWN_INTEGRITY_MAX boot_state)"]
      lockdown_is_locked_down_below_sentinel [OF h, of "''kexec''" boot_state]
    by (simp add: lock_kernel_down_init_def boot_state_def lockdown_enum)
qed

text \<open>
  C3. For every reason at or beyond \<^verbatim>\<open>LOCKDOWN_CONFIDENTIALITY_MAX\<close> the check logs the
  warning of a programming error and nothing else, returns \<open>-EPERM\<close> whatever the
  current level is, and leaves \<^verbatim>\<open>kernel_locked_down\<close> as it was.
\<close>

theorem lockdown_is_locked_down_invalid_reason:
  assumes "what \<ge> LOCKDOWN_CONFIDENTIALITY_MAX"
  shows "lockdown_is_locked_down comm what s =
           (- EPERM, s\<lparr>klog := klog s @ [Warning ''Invalid lockdown reason'']\<rparr>) \<and>
         fst (lockdown_is_locked_down comm what s) \<noteq> 0 \<and>
         kernel_locked_down (snd (lockdown_is_locked_down comm what s)) = kernel_locked_down s"
  using assms by (simp add: lockdown_is_locked_down_def EPERM_def)

theorem lockdown_is_locked_down_invalid_reason_witness:
  "LOCKDOWN_CONFIDENTIALITY_MAX \<le> LOCKDOWN_CONFIDENTIALITY_MAX \<and>
   lockdown_is_locked_down ''sh'' LOCKDOWN_CONFIDENTIALITY_MAX boot_state =
     (- EPERM, boot_state\<lparr>klog := [Warning ''Invalid lockdown reason'']\<rparr>) \<and>
   LOCKDOWN_CONFIDENTIALITY_MAX \<le> 4000 \<and>
   lockdown_is_locked_down ''sh'' 4000 boot_state =
     (- EPERM, boot_state\<lparr>klog := [Warning ''Invalid lockdown reason'']\<rparr>)"
proof -
  have h1: "LOCKDOWN_CONFIDENTIALITY_MAX \<le> LOCKDOWN_CONFIDENTIALITY_MAX"
    by simp
  have h2: "LOCKDOWN_CONFIDENTIALITY_MAX \<le> 4000"
    by (simp add: lockdown_enum)
  show ?thesis
    using h2 lockdown_is_locked_down_invalid_reason [OF h1, of "''sh''" boot_state]
      lockdown_is_locked_down_invalid_reason [OF h2, of "''sh''" boot_state]
    by (simp add: boot_state_def)
qed

subsection \<open>The command-line parameter\<close>



text \<open>
  C10. For a recognised token \<^verbatim>\<open>lockdown_param\<close> returns 0 also when the raise fails:
  with the current level already at or above the milestone asked for,
  \<^verbatim>\<open>lock_kernel_down\<close> returns \<open>-EPERM\<close>, and \<^verbatim>\<open>lockdown_param\<close> returns 0 with the
  state as it was.
\<close>

theorem lockdown_param_discards_raise_result:
  "fst (lockdown_param (Some ''integrity'') s) = 0 \<and>
   fst (lockdown_param (Some ''confidentiality'') s) = 0 \<and>
   (kernel_locked_down s \<ge> LOCKDOWN_INTEGRITY_MAX \<longrightarrow>
      fst (lock_kernel_down_init ''command line'' LOCKDOWN_INTEGRITY_MAX s) = - EPERM \<and>
      lockdown_param (Some ''integrity'') s = (0, s)) \<and>
   (kernel_locked_down s \<ge> LOCKDOWN_CONFIDENTIALITY_MAX \<longrightarrow>
      fst (lock_kernel_down_init ''command line'' LOCKDOWN_CONFIDENTIALITY_MAX s) = - EPERM \<and>
      lockdown_param (Some ''confidentiality'') s = (0, s))"
  by (simp add: lockdown_param_def lock_kernel_down_init_def)

theorem lockdown_param_discards_raise_result_witness:
  "LOCKDOWN_INTEGRITY_MAX \<le>
     kernel_locked_down (snd (lockdown_lsm_init ForceConfidentiality boot_state)) \<and>
   fst (lock_kernel_down_init ''command line'' LOCKDOWN_INTEGRITY_MAX
          (snd (lockdown_lsm_init ForceConfidentiality boot_state))) = - EPERM \<and>
   lockdown_param (Some ''integrity'') (snd (lockdown_lsm_init ForceConfidentiality boot_state)) =
     (0, snd (lockdown_lsm_init ForceConfidentiality boot_state)) \<and>
   LOCKDOWN_CONFIDENTIALITY_MAX \<le>
     kernel_locked_down (snd (lockdown_lsm_init ForceConfidentiality boot_state)) \<and>
   lockdown_param (Some ''confidentiality'')
     (snd (lockdown_lsm_init ForceConfidentiality boot_state)) =
     (0, snd (lockdown_lsm_init ForceConfidentiality boot_state))"
  using lockdown_param_discards_raise_result
    [of "snd (lockdown_lsm_init ForceConfidentiality boot_state)"]
  by (simp add: lock_kernel_down_init_def boot_state_def lockdown_enum)

subsection \<open>The SysRq lift\<close>

text \<open>
  C7, as stated, fails: after the lift from \<^verbatim>\<open>LOCKDOWN_CONFIDENTIALITY_MAX\<close> the check of
  the reason \<^verbatim>\<open>LOCKDOWN_NONE\<close> still returns \<open>-EPERM\<close>, since the level 0 is at least 0.
\<close>

theorem lift_then_check_counterexample:
  "fst (lockdown_is_locked_down ''sh'' LOCKDOWN_NONE
         (sysrq_handle_lockdown_lift 120
            \<lparr>kernel_locked_down = LOCKDOWN_CONFIDENTIALITY_MAX, klog = []\<rparr>)) = - EPERM \<and>
   - EPERM \<noteq> 0"
  by (simp add: lockdown_is_locked_down_def sysrq_handle_lockdown_lift_def
      lift_kernel_lockdown_def EPERM_def lockdown_enum)

text \<open>
  C7, amended. \<^verbatim>\<open>sysrq_handle_lockdown_lift\<close> leaves the level at \<^verbatim>\<open>LOCKDOWN_NONE\<close>
  whatever it was, and a check that follows returns 0 for every reason strictly above
  \<^verbatim>\<open>LOCKDOWN_NONE\<close> and strictly below \<^verbatim>\<open>LOCKDOWN_CONFIDENTIALITY_MAX\<close>.
\<close>

theorem lift_then_check:
  "kernel_locked_down (sysrq_handle_lockdown_lift key s) = LOCKDOWN_NONE \<and>
   (LOCKDOWN_NONE < what \<and> what < LOCKDOWN_CONFIDENTIALITY_MAX \<longrightarrow>
      fst (lockdown_is_locked_down comm what (sysrq_handle_lockdown_lift key s)) = 0)"
proof -
  have lifted: "kernel_locked_down (sysrq_handle_lockdown_lift key s) = LOCKDOWN_NONE"
    by (simp add: sysrq_handle_lockdown_lift_def lift_kernel_lockdown_def)
  have "fst (lockdown_is_locked_down comm what (sysrq_handle_lockdown_lift key s)) = 0"
    if "LOCKDOWN_NONE < what" and "what < LOCKDOWN_CONFIDENTIALITY_MAX"
    using that lifted by (auto simp add: lockdown_is_locked_down_def)
  with lifted show ?thesis
    by blast
qed

theorem lift_then_check_witness:
  "kernel_locked_down (sysrq_handle_lockdown_lift 120
      \<lparr>kernel_locked_down = LOCKDOWN_CONFIDENTIALITY_MAX, klog = []\<rparr>) = LOCKDOWN_NONE \<and>
   LOCKDOWN_NONE < LOCKDOWN_TRACEFS \<and> LOCKDOWN_TRACEFS < LOCKDOWN_CONFIDENTIALITY_MAX \<and>
   fst (lockdown_is_locked_down ''sh'' LOCKDOWN_TRACEFS
         (sysrq_handle_lockdown_lift 120
            \<lparr>kernel_locked_down = LOCKDOWN_CONFIDENTIALITY_MAX, klog = []\<rparr>)) = 0"
  using lift_then_check [of 120 "\<lparr>kernel_locked_down = LOCKDOWN_CONFIDENTIALITY_MAX, klog = []\<rparr>"
      LOCKDOWN_TRACEFS "''sh''"]
  by (simp add: lockdown_enum)

subsection \<open>Writing the lowest level\<close>

text \<open>
  C9. \<^verbatim>\<open>none\<close> is a label of \<^verbatim>\<open>lockdown_levels\<close>, yet writing it, with or without a
  trailing newline, returns \<open>-EPERM\<close> at every current level and leaves the state as it
  was.
\<close>

theorem lockdown_write_none_fails:
  "LOCKDOWN_NONE \<in> set lockdown_levels \<and>
   lockdown_reasons LOCKDOWN_NONE = Some ''none'' \<and>
   lockdown_write lift (Inr ''none'') n s = Inr (- EPERM, s) \<and>
   lockdown_write lift (Inr (''none'' @ [newline])) n s = Inr (- EPERM, s)"
proof -
  have listed: "LOCKDOWN_NONE \<in> set lockdown_levels"
    by (simp add: lockdown_levels_def)
  have fail: "lock_kernel_down (\<not> lift) ''securityfs'' LOCKDOWN_NONE s = Inr (- EPERM, s)"
    by (simp add: lock_kernel_down_def LOCKDOWN_NONE_def)
  have "nul \<notin> set ''none''" and "nul \<notin> set (''none'' @ [newline])"
    by (simp_all add: nul_def newline_def)
  then have "lockdown_write lift (Inr ''none'') n s = Inr (- EPERM, s) \<and>
      lockdown_write lift (Inr (''none'' @ [newline])) n s = Inr (- EPERM, s)"
    by (simp add: lockdown_write_text write_levels_lockdown_levels fail strip_newline_def
        newline_def EPERM_def)
  with listed lockdown_reasons_NONE show ?thesis
    by blast
qed

subsection \<open>The securityfs file\<close>

text \<open>Every reachable state is at one of the levels of \<^verbatim>\<open>lockdown_levels\<close>.\<close>

lemma lock_kernel_down_init_level_cases:
  "kernel_locked_down (snd (lock_kernel_down_init whence level s)) = kernel_locked_down s \<or>
   kernel_locked_down (snd (lock_kernel_down_init whence level s)) = level"
  by (simp add: lock_kernel_down_init_def)

lemma lock_kernel_down_level_cases:
  "lock_kernel_down ro whence level s = Inr (ret, s') \<Longrightarrow>
   kernel_locked_down s' = kernel_locked_down s \<or> kernel_locked_down s' = level"
  by (auto simp add: lock_kernel_down_def split: if_splits)

lemma write_levels_level:
  assumes "write_levels ro t lockdown_levels e s = Inr (ret, s')"
  shows "kernel_locked_down s' \<in> insert (kernel_locked_down s) (set lockdown_levels)"
proof -
  have levels: "set lockdown_levels =
      {LOCKDOWN_NONE, LOCKDOWN_INTEGRITY_MAX, LOCKDOWN_CONFIDENTIALITY_MAX}"
    by (simp add: lockdown_levels_def)
  from assms show ?thesis
    unfolding write_levels_lockdown_levels levels
    by (auto split: if_splits dest: lock_kernel_down_level_cases)
qed

lemma lockdown_write_level:
  assumes "lockdown_write lift dup n s = Inr (ret, s')"
  shows "kernel_locked_down s' \<in> insert (kernel_locked_down s) (set lockdown_levels)"
proof (cases dup)
  case (Inl e)
  with assms show ?thesis
    by (simp add: lockdown_write_def)
next
  case (Inr bytes)
  define t where "t = (if length (c_string bytes) \<noteq> 0 \<and>
      c_string bytes ! (length (c_string bytes) - 1) = newline
    then take (length (c_string bytes) - 1) (c_string bytes) else c_string bytes)"
  from assms obtain err where "write_levels (\<not> lift) t lockdown_levels (- EINVAL) s = Inr (err, s')"
    by (auto simp add: Inr lockdown_write_def Let_def t_def split: sum.splits prod.splits)
  then show ?thesis
    by (rule write_levels_level)
qed

lemma reachable_level:
  "reachable lift s \<Longrightarrow> kernel_locked_down s \<in> set lockdown_levels"
proof (induction rule: reachable.induct)
  case by_boot
  show ?case
    by (simp add: boot_state_def lockdown_levels_def)
next
  case (by_init s cfg)
  then show ?case
    using lock_kernel_down_init_level_cases [of "''Kernel configuration''" LOCKDOWN_INTEGRITY_MAX s]
      lock_kernel_down_init_level_cases [of "''Kernel configuration''"
        LOCKDOWN_CONFIDENTIALITY_MAX s]
    by (cases cfg) (auto simp add: lockdown_levels_def)
next
  case (by_param s level)
  then show ?case
    using lock_kernel_down_init_level_cases [of "''command line''" LOCKDOWN_INTEGRITY_MAX s]
      lock_kernel_down_init_level_cases [of "''command line''" LOCKDOWN_CONFIDENTIALITY_MAX s]
    by (cases level) (auto simp add: lockdown_param_def lockdown_levels_def)
next
  case (by_raise s level whence)
  then show ?case
    using lock_kernel_down_init_level_cases [of whence level s] by auto
next
  case (by_check s comm what)
  then show ?case
    by (simp add: lockdown_is_locked_down_def split: option.splits)
next
  case (by_write s dup n ret s')
  then show ?case
    using lockdown_write_level [of lift dup n s ret s'] by auto
next
  case (by_sysrq s key)
  then show ?case
    by (simp add: sysrq_handle_lockdown_lift_def lift_kernel_lockdown_def lockdown_levels_def)
qed

text \<open>The text \<^verbatim>\<open>lockdown_read\<close> builds; it fits the 80 bytes of \<^verbatim>\<open>temp\<close>.\<close>

lemma levels_distinct:
  "LOCKDOWN_NONE \<noteq> LOCKDOWN_INTEGRITY_MAX" "LOCKDOWN_INTEGRITY_MAX \<noteq> LOCKDOWN_NONE"
  "LOCKDOWN_NONE \<noteq> LOCKDOWN_CONFIDENTIALITY_MAX" "LOCKDOWN_CONFIDENTIALITY_MAX \<noteq> LOCKDOWN_NONE"
  "LOCKDOWN_INTEGRITY_MAX \<noteq> LOCKDOWN_CONFIDENTIALITY_MAX"
  "LOCKDOWN_CONFIDENTIALITY_MAX \<noteq> LOCKDOWN_INTEGRITY_MAX"
  by (simp_all add: lockdown_enum)

lemma read_levels_lockdown_levels:
  "read_levels cur lockdown_levels [] =
     ((if cur = LOCKDOWN_NONE then ''[none]'' else ''none'') @ '' '' @
      (if cur = LOCKDOWN_INTEGRITY_MAX then ''[integrity]'' else ''integrity'') @ '' '' @
      (if cur = LOCKDOWN_CONFIDENTIALITY_MAX then ''[confidentiality]'' else ''confidentiality''))
     @ '' ''"
  by (simp add: lockdown_levels_def level_labels levels_distinct)

lemma last_space_to_newline:
  "(let temp = line @ '' ''; offset = length temp
    in if offset > 0 then temp[offset - 1 := newline] else temp) = line @ [newline]"
  by (simp add: Let_def)

lemma lockdown_read_temp_line:
  "lockdown_read_temp s =
     (if kernel_locked_down s = LOCKDOWN_NONE then ''[none]'' else ''none'') @ '' '' @
     (if kernel_locked_down s = LOCKDOWN_INTEGRITY_MAX then ''[integrity]'' else ''integrity'') @
     '' '' @
     (if kernel_locked_down s = LOCKDOWN_CONFIDENTIALITY_MAX then ''[confidentiality]''
      else ''confidentiality'') @ [newline]"
  unfolding lockdown_read_temp_def read_levels_lockdown_levels last_space_to_newline
  by simp

lemma read_temp_NONE:
  "kernel_locked_down s = LOCKDOWN_NONE \<Longrightarrow>
   lockdown_read_temp s = ''[none] integrity confidentiality'' @ [newline]"
  by (simp add: lockdown_read_temp_line levels_distinct)

lemma read_temp_INTEGRITY_MAX:
  "kernel_locked_down s = LOCKDOWN_INTEGRITY_MAX \<Longrightarrow>
   lockdown_read_temp s = ''none [integrity] confidentiality'' @ [newline]"
  by (simp add: lockdown_read_temp_line levels_distinct)

lemma read_temp_CONFIDENTIALITY_MAX:
  "kernel_locked_down s = LOCKDOWN_CONFIDENTIALITY_MAX \<Longrightarrow>
   lockdown_read_temp s = ''none integrity [confidentiality]'' @ [newline]"
  by (simp add: lockdown_read_temp_line levels_distinct)

lemma read_levels_fits: "length (read_levels cur lockdown_levels []) < 80"
  by (simp add: read_levels_lockdown_levels)

lemma level_line_NONE: "level_line LOCKDOWN_NONE (''[none] integrity confidentiality'' @ [newline])"
  by (simp add: level_line_def lockdown_levels_def level_labels bracketed_def unbracket_def newline_def)

lemma level_line_INTEGRITY_MAX: "level_line LOCKDOWN_INTEGRITY_MAX (''none [integrity] confidentiality'' @ [newline])"
  by (simp add: level_line_def lockdown_levels_def level_labels bracketed_def unbracket_def newline_def)

lemma level_line_CONFIDENTIALITY_MAX: "level_line LOCKDOWN_CONFIDENTIALITY_MAX (''none integrity [confidentiality]'' @ [newline])"
  by (simp add: level_line_def lockdown_levels_def level_labels bracketed_def unbracket_def newline_def)


lemma level_line_read_temp:
  "kernel_locked_down s \<in> set lockdown_levels \<Longrightarrow>
   level_line (kernel_locked_down s) (lockdown_read_temp s)"
  using level_line_NONE level_line_INTEGRITY_MAX level_line_CONFIDENTIALITY_MAX
  by (auto simp add: lockdown_levels_def read_temp_NONE read_temp_INTEGRITY_MAX
      read_temp_CONFIDENTIALITY_MAX)

text \<open>
  C4. In every reachable state \<^verbatim>\<open>lockdown_read\<close> hands over one line, ended by a
  newline, that lists the labelled levels in their fixed increasing order with exactly
  one of them in brackets, the current level; at \<^verbatim>\<open>LOCKDOWN_INTEGRITY_MAX\<close> the line
  is \<^verbatim>\<open>none [integrity] confidentiality\<close> and a newline.
\<close>

theorem lockdown_read_line:
  assumes "reachable lift s"
  shows "lockdown_read xfer count ppos s = xfer count ppos (lockdown_read_temp s) \<and>
         level_line (kernel_locked_down s) (lockdown_read_temp s) \<and>
         sorted_wrt (<) lockdown_levels \<and>
         (kernel_locked_down s = LOCKDOWN_INTEGRITY_MAX \<longrightarrow>
            lockdown_read_temp s = ''none [integrity] confidentiality'' @ [newline])"
proof -
  have "kernel_locked_down s \<in> set lockdown_levels"
    using assms by (rule reachable_level)
  then have "level_line (kernel_locked_down s) (lockdown_read_temp s)"
    by (rule level_line_read_temp)
  moreover have "sorted_wrt (<) lockdown_levels"
    by (simp add: lockdown_levels_def lockdown_enum)
  ultimately show ?thesis
    by (simp add: lockdown_read_def read_temp_INTEGRITY_MAX)
qed

theorem lockdown_read_line_witness:
  "reachable True (snd (lock_kernel_down_init ''securityfs'' LOCKDOWN_INTEGRITY_MAX boot_state)) \<and>
   kernel_locked_down (snd (lock_kernel_down_init ''securityfs'' LOCKDOWN_INTEGRITY_MAX boot_state)) =
     LOCKDOWN_INTEGRITY_MAX \<and>
   lockdown_read_temp (snd (lock_kernel_down_init ''securityfs'' LOCKDOWN_INTEGRITY_MAX boot_state)) =
     ''none [integrity] confidentiality'' @ [newline] \<and>
   level_line LOCKDOWN_INTEGRITY_MAX (''none [integrity] confidentiality'' @ [newline])"
proof -
  have level: "LOCKDOWN_INTEGRITY_MAX \<in> set lockdown_levels"
    by (simp add: lockdown_levels_def)
  have r: "reachable True (snd (lock_kernel_down_init ''securityfs'' LOCKDOWN_INTEGRITY_MAX boot_state))"
    by (rule reachable.by_raise [OF reachable.by_boot level])
  have k: "kernel_locked_down (snd (lock_kernel_down_init ''securityfs'' LOCKDOWN_INTEGRITY_MAX boot_state)) =
     LOCKDOWN_INTEGRITY_MAX"
    by (simp add: lock_kernel_down_init_def boot_state_def lockdown_enum)
  note t = lockdown_read_line [OF r, of "\<lambda>count ppos text. text" 80 0]
  from t k have line:
    "lockdown_read_temp (snd (lock_kernel_down_init ''securityfs'' LOCKDOWN_INTEGRITY_MAX boot_state)) =
     ''none [integrity] confidentiality'' @ [newline]"
    by simp
  from t have "level_line LOCKDOWN_INTEGRITY_MAX (''none [integrity] confidentiality'' @ [newline])"
    unfolding k line by simp
  with r k line show ?thesis
    by simp
qed

text \<open>
  What \<^verbatim>\<open>lockdown_write\<close> does with a payload of text (no NUL byte) in either build:
  one trailing newline is stripped and the rest compared with the labels. With no
  label matched it returns \<open>-EINVAL\<close>, with the matched level not above the current one
  \<open>-EPERM\<close>, the state as it was both times. With the matched level above the current
  one it raises the level and returns \<open>n\<close> in the build with the SysRq lift, and
  faults at the store in the build without it.
\<close>

lemma lockdown_write_payload_cases:
  assumes "nul \<notin> set buf"
  shows "((\<forall>level \<in> set lockdown_levels. lockdown_reasons level \<noteq> Some (strip_newline buf)) \<longrightarrow>
            lockdown_write lift (Inr buf) n s = Inr (- EINVAL, s)) \<and>
         (\<forall>level \<in> set lockdown_levels.
            lockdown_reasons level = Some (strip_newline buf) \<longrightarrow>
              (level \<le> kernel_locked_down s \<longrightarrow>
                 lockdown_write lift (Inr buf) n s = Inr (- EPERM, s)) \<and>
              (kernel_locked_down s < level \<and> lift \<longrightarrow>
                 lockdown_write lift (Inr buf) n s =
                   Inr (int n, snd (lock_kernel_down_init ''securityfs'' level s))) \<and>
              (kernel_locked_down s < level \<and> \<not> lift \<longrightarrow>
                 lockdown_write lift (Inr buf) n s = Inl Write_Fault)) \<and>
         lockdown_write lift (Inr []) n s = Inr (- EINVAL, s) \<and>
         - EPERM \<noteq> - EINVAL"
proof -
  let ?t = "strip_newline buf"
  have w: "lockdown_write lift (Inr buf) n s =
      (case write_levels (\<not> lift) ?t lockdown_levels (- EINVAL) s of
         Inl f \<Rightarrow> Inl f
       | Inr (err, s') \<Rightarrow> Inr (if err \<noteq> 0 then err else int n, s'))"
    using assms by (rule lockdown_write_text)
  have levels: "set lockdown_levels =
      {LOCKDOWN_NONE, LOCKDOWN_INTEGRITY_MAX, LOCKDOWN_CONFIDENTIALITY_MAX}"
    by (simp add: lockdown_levels_def)
  have unmatched: "lockdown_write lift (Inr buf) n s = Inr (- EINVAL, s)"
    if "\<forall>level \<in> set lockdown_levels. lockdown_reasons level \<noteq> Some ?t"
  proof -
    from that have "?t \<noteq> ''none''" "?t \<noteq> ''integrity''" "?t \<noteq> ''confidentiality''"
      unfolding levels by (auto simp add: level_labels)
    then show ?thesis
      by (simp add: w write_levels_lockdown_levels EINVAL_def)
  qed
  have matched: "(level \<le> kernel_locked_down s \<longrightarrow>
                 lockdown_write lift (Inr buf) n s = Inr (- EPERM, s)) \<and>
              (kernel_locked_down s < level \<and> lift \<longrightarrow>
                 lockdown_write lift (Inr buf) n s =
                   Inr (int n, snd (lock_kernel_down_init ''securityfs'' level s))) \<and>
              (kernel_locked_down s < level \<and> \<not> lift \<longrightarrow>
                 lockdown_write lift (Inr buf) n s = Inl Write_Fault)"
    if "level \<in> set lockdown_levels" and "lockdown_reasons level = Some ?t" for level
  proof -
    have found: "write_levels (\<not> lift) ?t lockdown_levels (- EINVAL) s =
        lock_kernel_down (\<not> lift) ''securityfs'' level s"
      using that unfolding levels write_levels_lockdown_levels
      by (auto simp add: level_labels)
    show ?thesis
      unfolding w found
      by (auto simp add: lock_kernel_down_def lock_kernel_down_init_def EPERM_def)
  qed
  have empty: "lockdown_write lift (Inr []) n s = Inr (- EINVAL, s)"
    by (simp add: lockdown_write_def c_string_def Let_def write_levels_lockdown_levels EINVAL_def)
  have "- EPERM \<noteq> - EINVAL"
    by (simp add: EPERM_def EINVAL_def)
  with unmatched matched empty show ?thesis
    by blast
qed

text \<open>
  C5 does not hold of the build without \<^verbatim>\<open>CONFIG_ALLOW_LOCKDOWN_LIFT_BY_SYSRQ\<close>: at
  the level \<^verbatim>\<open>LOCKDOWN_NONE\<close> the ten bytes \<^verbatim>\<open>integrity\<close> and a newline match a level
  above the current one, yet the write faults at the store of \<^verbatim>\<open>lock_kernel_down\<close>
  and returns nothing. In the build with the SysRq lift the same write returns 10 and
  leaves the level at \<^verbatim>\<open>LOCKDOWN_INTEGRITY_MAX\<close>.
\<close>

theorem lockdown_write_faults_after_init:
  "lockdown_write False (Inr (''integrity'' @ [newline])) 10 boot_state = Inl Write_Fault \<and>
   lockdown_write True (Inr (''integrity'' @ [newline])) 10 boot_state =
     Inr (10, \<lparr>kernel_locked_down = LOCKDOWN_INTEGRITY_MAX,
               klog = [Notice (''Kernel is locked down from securityfs'' @
                               ''; see https://wiki.debian.org/SecureBoot'' @ [newline])]\<rparr>)"
proof -
  have "nul \<notin> set (''integrity'' @ [newline])"
    by (simp add: nul_def newline_def)
  moreover have "strip_newline (''integrity'' @ [newline]) = ''integrity''"
    by (simp add: strip_newline_def)
  ultimately show ?thesis
    by (simp add: lockdown_write_text write_levels_lockdown_levels lock_kernel_down_def
        boot_state_def lockdown_enum)
qed

text \<open>
  A payload with a NUL byte is read as a C string, so only the bytes before the first
  NUL are compared, while the count returned is still \<open>n\<close>.
\<close>

lemma lockdown_write_cut_at_nul:
  "lockdown_write True (Inr (''integrity'' @ [nul] @ ''xx'')) 12 boot_state =
     Inr (12, snd (lock_kernel_down_init ''securityfs'' LOCKDOWN_INTEGRITY_MAX boot_state))"
proof -
  have "c_string (''integrity'' @ [nul] @ ''xx'') = ''integrity''"
    by (simp add: c_string_def nul_def)
  then show ?thesis
    unfolding lockdown_write_def Let_def strip_by_index
    by (simp add: strip_newline_def newline_def write_levels_lockdown_levels
        lock_kernel_down_def lock_kernel_down_init_def boot_state_def lockdown_enum)
qed

end
